theory Spec2Isabelle
  imports Complex_Main "HOL-Library.AList"
begin

section \<open>Budget tracker: the model layer of \<^verbatim>\<open>src/models/budget_tracker.py\<close>\<close>

text \<open>
  The class \<^verbatim>\<open>BudgetTracker\<close> is embedded as a record of its attributes and one HOL
  function per method, each taking the tracker and returning its result together with the
  tracker it leaves behind. Amounts are Python floats; they are modelled by \<open>real\<close>, so
  rounding, NaN and infinities are outside the model. Transactions are Python dictionaries
  with the keys \<^verbatim>\<open>amount, category, type, currency, date, id\<close>; every path of the class
  that builds one sets all six keys, so a transaction is a record, and its text fields are
  strings as the type hints of \<^verbatim>\<open>add_transaction\<close> say. A character of a string is a
  code point below 256.
\<close>

subsection \<open>Data model\<close>

record transaction =
  amount :: real
  category :: string
  ttype :: string
  currency :: string
  date :: string
  tid :: int

record tracker =
  transactions :: "transaction list"
  income_categories :: "string list"
  expense_categories :: "string list"
  budget_limits :: "(string \<times> real) list"
  monthly_budget_limit :: "real option"
  weekly_budget_limit :: "real option"

text \<open>
  \<^verbatim>\<open>__init__\<close>: the state before \<^verbatim>\<open>load_categories\<close> and \<^verbatim>\<open>load_budget_settings\<close>
  read their side files (both leave the state as it is when the file is missing).
\<close>

definition init :: tracker where
  "init = \<lparr> transactions = [],
      income_categories = [''Salary'', ''Freelance'', ''Business'', ''Investment'', ''Gift'',
        ''Other Income''],
      expense_categories = [''Food'', ''Transportation'', ''Entertainment'', ''Bills'',
        ''Shopping'', ''Healthcare'', ''Education'', ''Other Expense''],
      budget_limits = [],
      monthly_budget_limit = None,
      weekly_budget_limit = None \<rparr>"

text \<open>Exchange rates relative to USD (1 USD = X units of the currency).\<close>

definition exchange_rates :: "(string \<times> real) list" where
  "exchange_rates =
     [(''USD'', 1), (''EUR'', 91 / 100), (''GBP'', 79 / 100), (''JPY'', 299 / 2),
      (''CAD'', 136 / 100), (''AUD'', 152 / 100), (''CHF'', 87 / 100), (''CNY'', 724 / 100),
      (''INR'', 8312 / 100), (''BRL'', 503 / 100), (''PKR'', 278)]"

subsection \<open>Strings\<close>

text \<open>
  \<^verbatim>\<open>str.strip()\<close> removes leading and trailing whitespace. A character is its code
  point below 256; the ones \<^verbatim>\<open>str.isspace\<close> accepts there are the codes 9 to 13, 28 to
  32, 133 (next line) and 160 (no-break space).
\<close>

definition py_isspace :: "char \<Rightarrow> bool" where
  "py_isspace c =
     (let n = (of_char c :: nat) in
      (9 \<le> n \<and> n \<le> 13) \<or> (28 \<le> n \<and> n \<le> 32) \<or> n = 133 \<or> n = 160)"

definition strip :: "string \<Rightarrow> string" where
  "strip s = rev (dropWhile py_isspace (rev (dropWhile py_isspace s)))"

subsection \<open>Transaction ledger\<close>

text \<open>
  \<^verbatim>\<open>add_transaction\<close>. The argument \<open>now_iso\<close> is \<^verbatim>\<open>datetime.now().isoformat()\<close>,
  read only when no date is given. The three validation returns come first, in the order
  of the source; nothing is written before them.
\<close>

definition add_transaction ::
  "string \<Rightarrow> real \<Rightarrow> string \<Rightarrow> string \<Rightarrow> string \<Rightarrow> string option \<Rightarrow> tracker \<Rightarrow> bool \<times> tracker"
where
  "add_transaction now_iso amnt cat transaction_type cur transaction_date s =
     (if amnt \<le> 0 then (False, s)
      else if cat = [] \<or> strip cat = [] then (False, s)
      else if transaction_type \<notin> set [''Income'', ''Expense''] then (False, s)
      else
        let d = (case transaction_date of None \<Rightarrow> now_iso | Some d \<Rightarrow> d);
            t = \<lparr> amount = amnt, category = strip cat, ttype = transaction_type,
                  currency = cur, date = d, tid = int (length (transactions s)) + 1 \<rparr>
        in (True, s\<lparr>transactions := transactions s @ [t]\<rparr>))"

definition get_transactions :: "tracker \<Rightarrow> transaction list" where
  "get_transactions s = transactions s"

text \<open>\<^verbatim>\<open>remove_transaction\<close>: the first transaction with the id is popped.\<close>

fun remove_first_id :: "int \<Rightarrow> transaction list \<Rightarrow> transaction list option" where
  "remove_first_id i [] = None"
| "remove_first_id i (t # ts) =
     (if tid t = i then Some ts
      else (case remove_first_id i ts of None \<Rightarrow> None | Some ts' \<Rightarrow> Some (t # ts')))"

definition remove_transaction :: "int \<Rightarrow> tracker \<Rightarrow> bool \<times> tracker" where
  "remove_transaction transaction_id s =
     (case remove_first_id transaction_id (transactions s) of
        None \<Rightarrow> (False, s)
      | Some ts \<Rightarrow> (True, s\<lparr>transactions := ts\<rparr>))"

definition clear_all_transactions :: "tracker \<Rightarrow> tracker" where
  "clear_all_transactions s = s\<lparr>transactions := []\<rparr>"

definition get_transaction_count :: "tracker \<Rightarrow> nat" where
  "get_transaction_count s = length (transactions s)"

subsection \<open>Currency conversion\<close>

definition convert_to_usd :: "real \<Rightarrow> string \<Rightarrow> real" where
  "convert_to_usd amnt cur =
     (case map_of exchange_rates cur of
        None \<Rightarrow> amnt
      | Some rate \<Rightarrow> \<bar>amnt\<bar> / rate)"

subsection \<open>Summary\<close>

record summary =
  total_income :: real
  total_expenses :: real
  net_balance :: real

text \<open>The loop of \<^verbatim>\<open>get_summary\<close>, with its two running totals.\<close>

fun summary_loop :: "transaction list \<Rightarrow> real \<Rightarrow> real \<Rightarrow> real \<times> real" where
  "summary_loop [] total_income_usd total_expenses_usd = (total_income_usd, total_expenses_usd)"
| "summary_loop (t # ts) total_income_usd total_expenses_usd =
     (let amount_usd = convert_to_usd (amount t) (currency t) in
      if ttype t = ''Income'' then summary_loop ts (total_income_usd + amount_usd) total_expenses_usd
      else if ttype t = ''Expense'' then summary_loop ts total_income_usd (total_expenses_usd + amount_usd)
      else summary_loop ts total_income_usd total_expenses_usd)"

definition get_summary :: "tracker \<Rightarrow> summary" where
  "get_summary s =
     (case summary_loop (transactions s) 0 0 of
        (total_income_usd, total_expenses_usd) \<Rightarrow>
          \<lparr> total_income = total_income_usd,
            total_expenses = total_expenses_usd,
            net_balance = total_income_usd - total_expenses_usd \<rparr>)"

subsection \<open>Category registry\<close>

text \<open>
  \<^verbatim>\<open>get_categories(transaction_type)\<close>, the definition of the name that is in force
  (the later one of the two in the class).
\<close>

definition get_categories :: "string option \<Rightarrow> tracker \<Rightarrow> string list" where
  "get_categories transaction_type s =
     (if transaction_type = Some ''Income'' then income_categories s
      else if transaction_type = Some ''Expense'' then expense_categories s
      else income_categories s @ expense_categories s)"

definition is_category_in_use :: "string \<Rightarrow> tracker \<Rightarrow> bool" where
  "is_category_in_use category_name s =
     list_ex (\<lambda>t. category t = category_name) (transactions s)"

text \<open>
  \<^verbatim>\<open>add_category\<close> and \<^verbatim>\<open>remove_category\<close>. Both call \<^verbatim>\<open>save_categories\<close> after a
  change; it writes \<^verbatim>\<open>categories.json\<close>, catches every error of the write and touches no
  attribute, so it does not appear in the state. \<^verbatim>\<open>list.remove\<close> deletes the first
  occurrence, which is \<open>remove1\<close>.
\<close>

text \<open>
  What a load finds at the path: no file (\<^verbatim>\<open>Path(...).exists()\<close> is false), a file
  that cannot be opened, decoded or parsed (the exception is caught), or a parsed document.
\<close>

datatype 'a path_content = Missing | Unreadable | Content 'a

text \<open>
  \<^verbatim>\<open>load_categories\<close>, which \<^verbatim>\<open>__init__\<close> calls on \<^verbatim>\<open>categories.json\<close>. The document
  is the object of section 6: each of the two members, when present, is a list of strings,
  and is installed as it is.
\<close>

record categories_doc =
  doc_income_categories :: "string list option"
  doc_expense_categories :: "string list option"

definition load_categories :: "categories_doc path_content \<Rightarrow> tracker \<Rightarrow> bool \<times> tracker" where
  "load_categories f s =
     (case f of
        Missing \<Rightarrow> (False, s)
      | Unreadable \<Rightarrow> (False, s)
      | Content categories_data \<Rightarrow>
          (let s1 = (case doc_income_categories categories_data of
                       None \<Rightarrow> s
                     | Some xs \<Rightarrow> s\<lparr>income_categories := xs\<rparr>);
               s2 = (case doc_expense_categories categories_data of
                       None \<Rightarrow> s1
                     | Some xs \<Rightarrow> s1\<lparr>expense_categories := xs\<rparr>)
           in (True, s2)))"

definition add_category :: "string \<Rightarrow> string \<Rightarrow> tracker \<Rightarrow> bool \<times> tracker" where
  "add_category category_name transaction_type s =
     (let name = strip category_name in
      if name = [] then (False, s)
      else if transaction_type = ''Income'' then
        (if name \<notin> set (income_categories s)
         then (True, s\<lparr>income_categories := income_categories s @ [name]\<rparr>)
         else (False, s))
      else if transaction_type = ''Expense'' then
        (if name \<notin> set (expense_categories s)
         then (True, s\<lparr>expense_categories := expense_categories s @ [name]\<rparr>)
         else (False, s))
      else (False, s))"

definition remove_category :: "string \<Rightarrow> string \<Rightarrow> tracker \<Rightarrow> bool \<times> tracker" where
  "remove_category category_name transaction_type s =
     (if is_category_in_use category_name s then (False, s)
      else if transaction_type = ''Income'' \<and> category_name \<in> set (income_categories s)
        then (True, s\<lparr>income_categories := remove1 category_name (income_categories s)\<rparr>)
      else if transaction_type = ''Expense'' \<and> category_name \<in> set (expense_categories s)
        then (True, s\<lparr>expense_categories := remove1 category_name (expense_categories s)\<rparr>)
      else (False, s))"

subsection \<open>Dates\<close>

text \<open>
  A naive \<^verbatim>\<open>datetime\<close> is the record of its seven fields; two naive values compare as
  their field tuples do, lexicographically. A value with a time zone is \<open>Aware\<close>; Python
  refuses to compare it with a naive one (TypeError).
\<close>

record datetime =
  year :: nat
  month :: nat
  day :: nat
  hour :: nat
  minute :: nat
  second :: nat
  microsecond :: nat

datatype pydatetime = Naive datetime | Aware datetime int

datatype error = ValueError | TypeError | ZeroDivisionError

fun lex_le :: "nat list \<Rightarrow> nat list \<Rightarrow> bool" where
  "lex_le [] ys = True"
| "lex_le (x # xs) [] = False"
| "lex_le (x # xs) (y # ys) = (x < y \<or> (x = y \<and> lex_le xs ys))"

definition timetuple :: "datetime \<Rightarrow> nat list" where
  "timetuple d = [year d, month d, day d, hour d, minute d, second d, microsecond d]"

definition dt_le :: "datetime \<Rightarrow> datetime \<Rightarrow> bool" where
  "dt_le a b = lex_le (timetuple a) (timetuple b)"

text \<open>The proleptic Gregorian calendar of \<^verbatim>\<open>datetime\<close>: ordinal 1 is 0001-01-01, a Monday.\<close>

definition is_leap :: "nat \<Rightarrow> bool" where
  "is_leap y = (y mod 4 = 0 \<and> (y mod 100 \<noteq> 0 \<or> y mod 400 = 0))"

definition days_in_month :: "nat \<Rightarrow> nat \<Rightarrow> nat" where
  "days_in_month y m =
     (if m = 2 then (if is_leap y then 29 else 28)
      else if m \<in> set [4, 6, 9, 11] then 30 else 31)"

definition days_before_year :: "nat \<Rightarrow> nat" where
  "days_before_year y = (let p = y - 1 in p * 365 + p div 4 - p div 100 + p div 400)"

definition days_before_month :: "nat \<Rightarrow> nat \<Rightarrow> nat" where
  "days_before_month y m = sum_list (map (days_in_month y) [1..<m])"

definition toordinal :: "datetime \<Rightarrow> nat" where
  "toordinal d = days_before_year (year d) + days_before_month (year d) (month d) + day d"

definition weekday :: "datetime \<Rightarrow> nat" where
  "weekday d = (toordinal d + 6) mod 7"

text \<open>
  \<^verbatim>\<open>now - timedelta(days=k)\<close> steps back \<open>k\<close> calendar days and keeps the time of day.
  \<open>now\<close> is the wall clock, so the step never leaves year 1.
\<close>

definition prev_day :: "datetime \<Rightarrow> datetime" where
  "prev_day d =
     (if 1 < day d then d\<lparr>day := day d - 1\<rparr>
      else if 1 < month d then d\<lparr>month := month d - 1, day := days_in_month (year d) (month d - 1)\<rparr>
      else d\<lparr>year := year d - 1, month := 12, day := 31\<rparr>)"

definition minus_days :: "datetime \<Rightarrow> nat \<Rightarrow> datetime" where
  "minus_days d k = (prev_day ^^ k) d"

text \<open>\<^verbatim>\<open>s.replace('Z', '+00:00')\<close>\<close>

definition replace_Z :: "string \<Rightarrow> string" where
  "replace_Z s = concat (map (\<lambda>c. if c = CHR ''Z'' then ''+00:00'' else [c]) s)"

subsection \<open>Budget alerts\<close>


fun expenses_in_period_loop ::
  "(string \<Rightarrow> pydatetime option) \<Rightarrow> datetime \<Rightarrow> datetime \<Rightarrow> transaction list \<Rightarrow> real \<Rightarrow> error + real"
where
  "expenses_in_period_loop fromisoformat start_date end_date [] acc = Inr acc"
| "expenses_in_period_loop fromisoformat start_date end_date (t # ts) acc =
     (if ttype t = ''Expense'' then
        (case fromisoformat (replace_Z (date t)) of
           None \<Rightarrow> Inl ValueError
         | Some (Aware _ _) \<Rightarrow> Inl TypeError
         | Some (Naive transaction_date) \<Rightarrow>
             if dt_le start_date transaction_date \<and> dt_le transaction_date end_date
             then expenses_in_period_loop fromisoformat start_date end_date ts
                    (acc + convert_to_usd (amount t) (currency t))
             else expenses_in_period_loop fromisoformat start_date end_date ts acc)
      else expenses_in_period_loop fromisoformat start_date end_date ts acc)"

definition get_expenses_in_period ::
  "(string \<Rightarrow> pydatetime option) \<Rightarrow> datetime \<Rightarrow> datetime \<Rightarrow> tracker \<Rightarrow> error + real"
where
  "get_expenses_in_period fromisoformat start_date end_date s =
     expenses_in_period_loop fromisoformat start_date end_date (transactions s) 0"

definition month_start :: "datetime \<Rightarrow> datetime" where
  "month_start now = now\<lparr>day := 1, hour := 0, minute := 0, second := 0, microsecond := 0\<rparr>"

text \<open>
  \<^verbatim>\<open>category_totals\<close> is a dictionary: an association list in insertion order, where
  an assignment to a key already there keeps its place.
\<close>

fun category_expenses_loop ::
  "(string \<Rightarrow> pydatetime option) \<Rightarrow> datetime \<Rightarrow> transaction list \<Rightarrow> (string \<times> real) list
     \<Rightarrow> error + (string \<times> real) list"
where
  "category_expenses_loop fromisoformat current_month_start [] category_totals = Inr category_totals"
| "category_expenses_loop fromisoformat current_month_start (t # ts) category_totals =
     (if ttype t = ''Expense'' then
        (case fromisoformat (replace_Z (date t)) of
           None \<Rightarrow> Inl ValueError
         | Some (Aware _ _) \<Rightarrow> Inl TypeError
         | Some (Naive transaction_date) \<Rightarrow>
             if dt_le current_month_start transaction_date
             then category_expenses_loop fromisoformat current_month_start ts
                    (AList.update (category t)
                       ((case map_of category_totals (category t) of None \<Rightarrow> 0 | Some v \<Rightarrow> v)
                          + convert_to_usd (amount t) (currency t))
                       category_totals)
             else category_expenses_loop fromisoformat current_month_start ts category_totals)
      else category_expenses_loop fromisoformat current_month_start ts category_totals)"

definition get_category_expenses_current_month ::
  "(string \<Rightarrow> pydatetime option) \<Rightarrow> datetime \<Rightarrow> tracker \<Rightarrow> error + (string \<times> real) list"
where
  "get_category_expenses_current_month fromisoformat now s =
     category_expenses_loop fromisoformat (month_start now) (transactions s) []"

text \<open>
  An alert is the dictionary with the keys \<^verbatim>\<open>type, message, severity\<close>. The message is
  an f-string; it is kept as its pieces, a number with the precision it is printed at, so
  that no float formatting is modelled: \<open>Lit\<close> is literal text, \<open>Str\<close> a string value
  (the category name, which the message puts between apostrophes), \<open>Fix1\<close> and \<open>Fix2\<close> a
  number printed with one and with two decimals.
\<close>

datatype fmt = Lit string | Str string | Fix1 real | Fix2 real

record alert =
  atype :: string
  message :: "fmt list"
  severity :: string

record budget_status =
  monthly_spent :: real
  monthly_limit :: "real option"
  weekly_spent :: real
  weekly_limit :: "real option"
  category_expenses :: "(string \<times> real) list"
  category_limits :: "(string \<times> real) list"
  alerts :: "alert list"


definition set_weekly_budget :: "real \<Rightarrow> tracker \<Rightarrow> tracker" where
  "set_weekly_budget limit s = s\<lparr>weekly_budget_limit := Some limit\<rparr>"

definition set_category_budget :: "string \<Rightarrow> real \<Rightarrow> tracker \<Rightarrow> tracker" where
  "set_category_budget cat limit s = s\<lparr>budget_limits := AList.update cat limit (budget_limits s)\<rparr>"

definition remove_category_budget :: "string \<Rightarrow> tracker \<Rightarrow> bool \<times> tracker" where
  "remove_category_budget cat s =
     (if cat \<in> fst ` set (budget_limits s)
      then (True, s\<lparr>budget_limits := AList.delete cat (budget_limits s)\<rparr>)
      else (False, s))"

text \<open>
  The block \<^verbatim>\<open># Check monthly budget\<close>. \<^verbatim>\<open>if self.monthly_budget_limit:\<close> is false for
  \<^verbatim>\<open>None\<close> and for 0, and true for every other number.
\<close>

definition check_monthly :: "(real \<Rightarrow> real \<Rightarrow> real) \<Rightarrow> real option \<Rightarrow> real \<Rightarrow> alert list" where
  "check_monthly percent limit monthly_expenses =
     (case limit of
        None \<Rightarrow> []
      | Some l \<Rightarrow>
          if l = 0 then []
          else
            let monthly_percentage = percent monthly_expenses l in
            if monthly_expenses \<ge> l then
              [\<lparr> atype = ''monthly_exceeded'',
                 message = [Lit ''Monthly budget exceeded! Spent $'', Fix2 monthly_expenses,
                            Lit '' of $'', Fix2 l],
                 severity = ''critical'' \<rparr>]
            else if monthly_percentage \<ge> 80 then
              [\<lparr> atype = ''monthly_warning'',
                 message = [Lit ''Monthly budget warning: '', Fix1 monthly_percentage,
                            Lit ''% used ($'', Fix2 monthly_expenses, Lit '' of $'', Fix2 l,
                            Lit '')''],
                 severity = ''warning'' \<rparr>]
            else [])"

text \<open>The block \<^verbatim>\<open># Check weekly budget\<close>.\<close>

definition check_weekly :: "(real \<Rightarrow> real \<Rightarrow> real) \<Rightarrow> real option \<Rightarrow> real \<Rightarrow> alert list" where
  "check_weekly percent limit weekly_expenses =
     (case limit of
        None \<Rightarrow> []
      | Some l \<Rightarrow>
          if l = 0 then []
          else
            let weekly_percentage = percent weekly_expenses l in
            if weekly_expenses \<ge> l then
              [\<lparr> atype = ''weekly_exceeded'',
                 message = [Lit ''Weekly budget exceeded! Spent $'', Fix2 weekly_expenses,
                            Lit '' of $'', Fix2 l],
                 severity = ''critical'' \<rparr>]
            else if weekly_percentage \<ge> 80 then
              [\<lparr> atype = ''weekly_warning'',
                 message = [Lit ''Weekly budget warning: '', Fix1 weekly_percentage,
                            Lit ''% used ($'', Fix2 weekly_expenses, Lit '' of $'', Fix2 l,
                            Lit '')''],
                 severity = ''warning'' \<rparr>]
            else [])"

text \<open>
  The loop \<^verbatim>\<open># Check category budgets\<close> over \<^verbatim>\<open>self.budget_limits.items()\<close>. The guard
  of the division is \<^verbatim>\<open>spent > 0\<close>; Python raises ZeroDivisionError on \<^verbatim>\<open>spent / limit\<close>
  when the limit is 0, for floats as for integers, before anything is compared.
\<close>

fun check_categories ::
  "(real \<Rightarrow> real \<Rightarrow> real) \<Rightarrow> (string \<times> real) list \<Rightarrow> (string \<times> real) list \<Rightarrow> alert list
     \<Rightarrow> error + alert list"
where
  "check_categories percent [] cat_expenses alerts_so_far = Inr alerts_so_far"
| "check_categories percent ((cat, limit) # rest) cat_expenses alerts_so_far =
     (let spent = (case map_of cat_expenses cat of None \<Rightarrow> 0 | Some v \<Rightarrow> v) in
      if spent > 0 then
        (if limit = 0 then Inl ZeroDivisionError
         else
           let percentage = percent spent limit in
           if spent \<ge> limit then
             check_categories percent rest cat_expenses (alerts_so_far @
               [\<lparr> atype = ''category_exceeded'',
                  message = [Lit ''Category '', Str cat, Lit '' budget exceeded! Spent $'',
                             Fix2 spent, Lit '' of $'', Fix2 limit],
                  severity = ''critical'' \<rparr>])
           else if percentage \<ge> 80 then
             check_categories percent rest cat_expenses (alerts_so_far @
               [\<lparr> atype = ''category_warning'',
                  message = [Lit ''Category '', Str cat, Lit '' warning: '', Fix1 percentage,
                             Lit ''% used ($'', Fix2 spent, Lit '' of $'', Fix2 limit, Lit '')''],
                  severity = ''warning'' \<rparr>])
           else check_categories percent rest cat_expenses alerts_so_far)
      else check_categories percent rest cat_expenses alerts_so_far)"

definition week_start :: "datetime \<Rightarrow> datetime" where
  "week_start now =
     (let days_since_monday = weekday now;
          current_week_start = minus_days now days_since_monday
      in current_week_start\<lparr>hour := 0, minute := 0, second := 0, microsecond := 0\<rparr>)"

definition get_budget_status ::
  "(real \<Rightarrow> real \<Rightarrow> real) \<Rightarrow> (string \<Rightarrow> pydatetime option) \<Rightarrow> datetime \<Rightarrow> tracker
     \<Rightarrow> error + budget_status"
where
  "get_budget_status percent fromisoformat now s =
     (case get_expenses_in_period fromisoformat (month_start now) now s of
        Inl e \<Rightarrow> Inl e
      | Inr monthly_expenses \<Rightarrow>
     (case get_expenses_in_period fromisoformat (week_start now) now s of
        Inl e \<Rightarrow> Inl e
      | Inr weekly_expenses \<Rightarrow>
     (case get_category_expenses_current_month fromisoformat now s of
        Inl e \<Rightarrow> Inl e
      | Inr cat_expenses \<Rightarrow>
     (case check_categories percent (budget_limits s) cat_expenses
             (check_monthly percent (monthly_budget_limit s) monthly_expenses
                @ check_weekly percent (weekly_budget_limit s) weekly_expenses) of
        Inl e \<Rightarrow> Inl e
      | Inr all_alerts \<Rightarrow>
          Inr \<lparr> monthly_spent = monthly_expenses,
                monthly_limit = monthly_budget_limit s,
                weekly_spent = weekly_expenses,
                weekly_limit = weekly_budget_limit s,
                category_expenses = cat_expenses,
                category_limits = budget_limits s,
                alerts = all_alerts \<rparr>))))"

text \<open>
  An instance of the parser for the examples: the three naive formats that
  \<^verbatim>\<open>datetime.isoformat()\<close> and the front ends write, \<^verbatim>\<open>YYYY-MM-DD\<close>,
  \<^verbatim>\<open>YYYY-MM-DDTHH:MM:SS\<close> and \<^verbatim>\<open>YYYY-MM-DDTHH:MM:SS.ffffff\<close>.
\<close>

definition digit :: "char \<Rightarrow> nat option" where
  "digit c = (let n = (of_char c :: nat) in if 48 \<le> n \<and> n \<le> 57 then Some (n - 48) else None)"

fun number_acc :: "string \<Rightarrow> nat \<Rightarrow> nat option" where
  "number_acc [] acc = Some acc"
| "number_acc (c # cs) acc =
     (case digit c of None \<Rightarrow> None | Some d \<Rightarrow> number_acc cs (10 * acc + d))"

definition number :: "string \<Rightarrow> nat option" where
  "number cs = (if cs = [] then None else number_acc cs 0)"

definition iso_date :: "string \<Rightarrow> (nat \<times> nat \<times> nat) option" where
  "iso_date cs =
     (if length cs = 10 \<and> cs ! 4 = CHR ''-'' \<and> cs ! 7 = CHR ''-'' then
        (case (number (take 4 cs), number (take 2 (drop 5 cs)), number (drop 8 cs)) of
           (Some y, Some m, Some d) \<Rightarrow>
             if 1 \<le> y \<and> 1 \<le> m \<and> m \<le> 12 \<and> 1 \<le> d \<and> d \<le> days_in_month y m
             then Some (y, m, d) else None
         | _ \<Rightarrow> None)
      else None)"

definition iso_time :: "string \<Rightarrow> (nat \<times> nat \<times> nat \<times> nat) option" where
  "iso_time cs =
     (if (length cs = 8 \<or> (length cs = 15 \<and> cs ! 8 = CHR ''.''))
          \<and> cs ! 2 = CHR '':'' \<and> cs ! 5 = CHR '':'' then
        (case (number (take 2 cs), number (take 2 (drop 3 cs)), number (take 2 (drop 6 cs)),
               if length cs = 8 then Some 0 else number (drop 9 cs)) of
           (Some h, Some mi, Some sec, Some us) \<Rightarrow>
             if h < 24 \<and> mi < 60 \<and> sec < 60 then Some (h, mi, sec, us) else None
         | _ \<Rightarrow> None)
      else None)"

definition fromisoformat_naive :: "string \<Rightarrow> pydatetime option" where
  "fromisoformat_naive cs =
     (case iso_date (take 10 cs) of
        None \<Rightarrow> None
      | Some (y, m, d) \<Rightarrow>
          if length cs = 10 then
            Some (Naive \<lparr> year = y, month = m, day = d, hour = 0, minute = 0, second = 0,
                          microsecond = 0 \<rparr>)
          else if cs ! 10 = CHR ''T'' then
            (case iso_time (drop 11 cs) of
               None \<Rightarrow> None
             | Some (h, mi, sec, us) \<Rightarrow>
                 Some (Naive \<lparr> year = y, month = m, day = d, hour = h, minute = mi,
                               second = sec, microsecond = us \<rparr>))
          else None)"

subsection \<open>Reading a budget status\<close>






text \<open>A clock and ledgers for the examples: Saturday 2024-06-15, 12:30.\<close>

definition example_now :: datetime where
  "example_now = \<lparr> year = 2024, month = 6, day = 15, hour = 12, minute = 30, second = 0, microsecond = 0 \<rparr>"


definition example_week :: tracker where
  "example_week =
     snd (add_transaction [] 40 ''Food'' ''Expense'' ''USD'' (Some ''2024-06-07'')
    (snd (add_transaction [] 100 ''Bills'' ''Expense'' ''USD'' (Some ''2024-06-14'')
    (snd (add_transaction [] 100 ''Food'' ''Expense'' ''USD'' (Some ''2024-06-12'')
    (snd (add_transaction [] 100 ''Food'' ''Expense'' ''USD'' (Some ''2024-06-10'')
      (set_weekly_budget 250 init))))))))"

subsection \<open>Persistence\<close>

text \<open>
  A CSV file is modelled by its records as \<^verbatim>\<open>csv.DictWriter\<close> writes them and
  \<^verbatim>\<open>csv.DictReader\<close> yields them: one dictionary from column name to cell per row, read
  with \<open>map_of\<close>. Quoting and the header line are the library's business. Cells are
  strings; a row with fewer cells than the header, for which \<^verbatim>\<open>DictReader\<close> yields
  \<^verbatim>\<open>None\<close> values, is outside this type.

  The number functions of Python are arguments: \<open>py_str\<close> is \<^verbatim>\<open>str\<close> on a number, as
  the writer applies it to a cell that is not a string; \<open>py_float\<close> is \<^verbatim>\<open>float\<close> on a
  string, with \<open>None\<close> for its ValueError.
\<close>

type_synonym csv_row = "(string \<times> string) list"

text \<open>\<^verbatim>\<open>round(x, 2)\<close>, to the nearest hundredth, a tie to the even one.\<close>

definition py_round2 :: "real \<Rightarrow> real" where
  "py_round2 x =
     (let y = x * 100; f = \<lfloor>y\<rfloor>; d = y - of_int f in
      of_int (if d < 1 / 2 then f else if 1 / 2 < d then f + 1 else if even f then f else f + 1) / 100)"

text \<open>
  \<^verbatim>\<open>save_to_csv\<close>: the rows written, for the return value \<^verbatim>\<open>True\<close>. (A write that
  fails returns \<^verbatim>\<open>False\<close>; the tracker is not touched either way.)
\<close>

definition save_to_csv :: "(real \<Rightarrow> string) \<Rightarrow> tracker \<Rightarrow> csv_row list" where
  "save_to_csv py_str s =
     map (\<lambda>t. let usd_value = convert_to_usd (amount t) (currency t) in
            [(''date'', date t),
             (''amount'', py_str (amount t)),
             (''currency'', currency t),
             (''category'', category t),
             (''type'', ttype t),
             (''usd_value'', py_str (py_round2 usd_value))])
         (transactions s)"

text \<open>
  \<^verbatim>\<open>save_to_csv\<close> opens the file with \<^verbatim>\<open>newline=''\<close>, \<^verbatim>\<open>load_from_csv\<close> opens it
  without. In Python's default text mode every \<^verbatim>\<open>\r\n\<close> and every lone \<^verbatim>\<open>\r\<close> of the
  file becomes \<^verbatim>\<open>\n\<close> before the csv reader sees it, inside quoted cells too.
\<close>

fun universal_newlines :: "string \<Rightarrow> string" where
  "universal_newlines [] = []"
| "universal_newlines [c] = (if c = CHR 0x0D then [CHR 0x0A] else [c])"
| "universal_newlines (c # d # cs) =
     (if c = CHR 0x0D \<and> d = CHR 0x0A then CHR 0x0A # universal_newlines cs
      else if c = CHR 0x0D then CHR 0x0A # universal_newlines (d # cs)
      else c # universal_newlines (d # cs))"

definition text_mode_row :: "csv_row \<Rightarrow> csv_row" where
  "text_mode_row row = map (\<lambda>(k, v). (universal_newlines k, universal_newlines v)) row"

text \<open>
  The loop of \<^verbatim>\<open>load_from_csv\<close> over the rows; \<open>loaded\<close> is
  \<^verbatim>\<open>loaded_transactions\<close>. A row without one of the four required columns is skipped; a
  cell that \<^verbatim>\<open>float\<close> rejects raises ValueError, which ends the loop.
\<close>

fun csv_rows_loop ::
  "(string \<Rightarrow> real option) \<Rightarrow> csv_row list \<Rightarrow> transaction list \<Rightarrow> error + transaction list"
where
  "csv_rows_loop py_float [] loaded = Inr loaded"
| "csv_rows_loop py_float (row # rows) loaded =
     (case (map_of row ''date'', map_of row ''amount'', map_of row ''category'', map_of row ''type'') of
        (Some d, Some a, Some c, Some ty) \<Rightarrow>
          (case py_float a of
             None \<Rightarrow> Inl ValueError
           | Some x \<Rightarrow>
               csv_rows_loop py_float rows (loaded @
                 [\<lparr> amount = x, category = c, ttype = ty,
                    currency = (case map_of row ''currency'' of None \<Rightarrow> ''USD'' | Some cur \<Rightarrow> cur),
                    date = d, tid = int (length loaded) + 1 \<rparr>]))
      | _ \<Rightarrow> csv_rows_loop py_float rows loaded)"

definition load_from_csv ::
  "(string \<Rightarrow> real option) \<Rightarrow> csv_row list path_content \<Rightarrow> tracker \<Rightarrow> bool \<times> tracker"
where
  "load_from_csv py_float f s =
     (case f of
        Missing \<Rightarrow> (False, s)
      | Unreadable \<Rightarrow> (False, s)
      | Content rows \<Rightarrow>
          (case csv_rows_loop py_float (map text_mode_row rows) [] of
             Inl e \<Rightarrow> (False, s)
           | Inr loaded_transactions \<Rightarrow> (True, s\<lparr>transactions := loaded_transactions\<rparr>)))"

text \<open>
  A JSON document, up to the shapes \<^verbatim>\<open>load_from_json\<close> tells apart: a bare array
  (\<open>JList\<close>), an object with or without the member \<^verbatim>\<open>transactions\<close> (\<open>JDict\<close>, holding
  the array under that member if there is one), or any other value (\<open>JOther\<close>). An element
  of the array is an object; its members \<^verbatim>\<open>date, currency, category, type\<close> are strings
  when present, as in the format the tracker writes, and \<^verbatim>\<open>amount\<close> is any JSON value.
  Other members (\<^verbatim>\<open>id, usd_value\<close>) are not read.
\<close>

datatype jvalue = JNull | JBool bool | JNum real | JStr string | JNested

record json_object =
  j_date :: "string option"
  j_amount :: "jvalue option"
  j_currency :: "string option"
  j_category :: "string option"
  j_type :: "string option"

datatype json = JList "json_object list" | JDict "json_object list option" | JOther

text \<open>\<^verbatim>\<open>float(x)\<close> on a JSON value: TypeError for \<^verbatim>\<open>None\<close>, a list or a dictionary.\<close>

definition float_of_jvalue :: "(string \<Rightarrow> real option) \<Rightarrow> jvalue \<Rightarrow> error + real" where
  "float_of_jvalue py_float v =
     (case v of
        JNum x \<Rightarrow> Inr x
      | JBool b \<Rightarrow> Inr (if b then 1 else 0)
      | JStr cs \<Rightarrow> (case py_float cs of None \<Rightarrow> Inl ValueError | Some x \<Rightarrow> Inr x)
      | JNull \<Rightarrow> Inl TypeError
      | JNested \<Rightarrow> Inl TypeError)"

fun json_items_loop ::
  "(string \<Rightarrow> real option) \<Rightarrow> json_object list \<Rightarrow> transaction list \<Rightarrow> error + transaction list"
where
  "json_items_loop py_float [] loaded = Inr loaded"
| "json_items_loop py_float (transaction_data # rest) loaded =
     (case (j_date transaction_data, j_amount transaction_data, j_category transaction_data,
            j_type transaction_data) of
        (Some d, Some a, Some c, Some ty) \<Rightarrow>
          (case float_of_jvalue py_float a of
             Inl e \<Rightarrow> Inl e
           | Inr x \<Rightarrow>
               json_items_loop py_float rest (loaded @
                 [\<lparr> amount = x, category = c, ttype = ty,
                    currency = (case j_currency transaction_data of None \<Rightarrow> ''USD'' | Some cur \<Rightarrow> cur),
                    date = d, tid = int (length loaded) + 1 \<rparr>]))
      | _ \<Rightarrow> json_items_loop py_float rest loaded)"

definition load_from_json ::
  "(string \<Rightarrow> real option) \<Rightarrow> json path_content \<Rightarrow> tracker \<Rightarrow> bool \<times> tracker"
where
  "load_from_json py_float f s =
     (case f of
        Missing \<Rightarrow> (False, s)
      | Unreadable \<Rightarrow> (False, s)
      | Content data \<Rightarrow>
          (case (case data of
                   JList xs \<Rightarrow> Some xs
                 | JDict (Some xs) \<Rightarrow> Some xs
                 | JDict None \<Rightarrow> None
                 | JOther \<Rightarrow> None) of
             None \<Rightarrow> (False, s)
           | Some transactions_data \<Rightarrow>
               (case json_items_loop py_float transactions_data [] of
                  Inl e \<Rightarrow> (False, s)
                | Inr loaded_transactions \<Rightarrow> (True, s\<lparr>transactions := loaded_transactions\<rparr>))))"

text \<open>The invariant of the data model, on one transaction and on the ledger.\<close>

definition valid_transaction :: "transaction \<Rightarrow> bool" where
  "valid_transaction t =
     (0 < amount t \<and> (ttype t = ''Income'' \<or> ttype t = ''Expense'') \<and> category t \<noteq> [])"

definition ledger_valid :: "tracker \<Rightarrow> bool" where
  "ledger_valid s = list_all valid_transaction (transactions s)"

text \<open>
  The operations that change the ledger, and a run of them from a given state; the states
  reachable from \<open>init\<close> are the results of the runs.
\<close>

datatype ledger_op =
    Add real string string string "string option"
  | RemoveById int
  | Clear
  | ImportCsv "csv_row list path_content"
  | ImportJson "json path_content"

fun apply_op :: "string \<Rightarrow> (string \<Rightarrow> real option) \<Rightarrow> ledger_op \<Rightarrow> tracker \<Rightarrow> tracker" where
  "apply_op now_iso py_float (Add a c k cur d) s = snd (add_transaction now_iso a c k cur d s)"
| "apply_op now_iso py_float (RemoveById i) s = snd (remove_transaction i s)"
| "apply_op now_iso py_float Clear s = clear_all_transactions s"
| "apply_op now_iso py_float (ImportCsv f) s = snd (load_from_csv py_float f s)"
| "apply_op now_iso py_float (ImportJson f) s = snd (load_from_json py_float f s)"

fun run :: "string \<Rightarrow> (string \<Rightarrow> real option) \<Rightarrow> ledger_op list \<Rightarrow> tracker \<Rightarrow> tracker" where
  "run now_iso py_float [] s = s"
| "run now_iso py_float (x # xs) s = run now_iso py_float xs (apply_op now_iso py_float x s)"

fun is_import :: "ledger_op \<Rightarrow> bool" where
  "is_import (ImportCsv f) = True"
| "is_import (ImportJson f) = True"
| "is_import x = False"

text \<open>The five-tuple of a transaction that a CSV row carries.\<close>

definition csv_tuple :: "transaction \<Rightarrow> string \<times> real \<times> string \<times> string \<times> string" where
  "csv_tuple t = (date t, amount t, currency t, category t, ttype t)"

text \<open>
  The ids a load assigns, counting on from \<open>n\<close> transactions already loaded, and the
  transactions without a carriage return in a text field.
\<close>

definition renumber :: "nat \<Rightarrow> transaction list \<Rightarrow> transaction list" where
  "renumber n ts = map (\<lambda>(i, t). t\<lparr>tid := int i + 1\<rparr>) (enumerate n ts)"

definition no_cr :: "transaction \<Rightarrow> bool" where
  "no_cr t = (CHR 0x0D \<notin> set (date t) \<union> set (currency t) \<union> set (category t) \<union> set (ttype t))"

text \<open>An instance of \<open>py_float\<close> for the examples: plain decimal literals, with a sign.\<close>

definition decimal :: "string \<Rightarrow> real option" where
  "decimal cs =
     (let neg = (cs \<noteq> [] \<and> hd cs = CHR ''-'');
          body = (if neg then tl cs else cs);
          ip = takeWhile (\<lambda>c. c \<noteq> CHR ''.'') body;
          rest = dropWhile (\<lambda>c. c \<noteq> CHR ''.'') body;
          fp = (if rest = [] then ''0'' else tl rest)
      in case (number ip, number fp) of
           (Some i, Some f) \<Rightarrow>
             Some ((if neg then - 1 else 1) * (real i + real f / 10 ^ length fp))
         | _ \<Rightarrow> None)"

section \<open>Properties\<close>

subsection \<open>Adding a transaction\<close>

lemma strip_Nil [simp]: "strip [] = []"
  by (simp add: strip_def)

text \<open>
  C1: \<^verbatim>\<open>add_transaction\<close> returns False and leaves the tracker as it was when the amount is
  not positive, the category is empty after trimming, or the type is neither Income nor
  Expense. Otherwise it returns True, the count grows by exactly one, and the new
  transaction is the last of the sequence, with id equal to the count before the call
  plus one.
\<close>

theorem add_transaction_contract:
  "(amnt \<le> 0 \<or> strip cat = [] \<or> (k \<noteq> ''Income'' \<and> k \<noteq> ''Expense'')
      \<longrightarrow> add_transaction now_iso amnt cat k cur d s = (False, s))
   \<and> (0 < amnt \<and> strip cat \<noteq> [] \<and> (k = ''Income'' \<or> k = ''Expense'')
      \<longrightarrow> add_transaction now_iso amnt cat k cur d s
            = (True, s\<lparr>transactions := transactions s @
                 [\<lparr> amount = amnt, category = strip cat, ttype = k, currency = cur,
                    date = (case d of None \<Rightarrow> now_iso | Some x \<Rightarrow> x),
                    tid = int (get_transaction_count s) + 1 \<rparr>]\<rparr>)
          \<and> get_transaction_count (snd (add_transaction now_iso amnt cat k cur d s))
               = get_transaction_count s + 1
          \<and> tid (last (transactions (snd (add_transaction now_iso amnt cat k cur d s))))
               = int (get_transaction_count s) + 1)"
  by (auto simp: add_transaction_def get_transaction_count_def Let_def)

theorem add_transaction_contract_witness:
  "add_transaction ''2024-01-15T10:00:00'' (-100) ''Invalid'' ''Expense'' ''USD'' None init
     = (False, init)
   \<and> add_transaction ''2024-01-15T10:00:00'' 100 ''  '' ''Expense'' ''USD'' None init
     = (False, init)
   \<and> add_transaction ''2024-01-15T10:00:00'' 100 [CHR 0xA0, CHR 0x85] ''Expense'' ''USD'' None init
     = (False, init)
   \<and> add_transaction ''2024-01-15T10:00:00'' 100 ''Test'' ''Invalid'' ''USD'' None init
     = (False, init)
   \<and> fst (add_transaction ''2024-01-15T10:00:00'' 5000 ''Salary'' ''Income'' ''USD''
        (Some ''2024-01-15'') init)
   \<and> get_transaction_count (snd (add_transaction ''2024-01-15T10:00:00'' 5000 ''Salary''
        ''Income'' ''USD'' (Some ''2024-01-15'') init)) = 1"
proof -
  have sp: "strip ''  '' = []"
    by (simp add: strip_def py_isspace_def)
  have nb: "strip [CHR 0xA0, CHR 0x85] = []"
    by (simp add: strip_def py_isspace_def)
  have ns: "strip ''Salary'' \<noteq> []"
    by (simp add: strip_def py_isspace_def)
  have c0: "get_transaction_count init = 0"
    by (simp add: get_transaction_count_def init_def)
  note c = add_transaction_contract [where now_iso = "''2024-01-15T10:00:00''" and s = init
      and cur = "''USD''"]
  have a: "add_transaction ''2024-01-15T10:00:00'' (-100) ''Invalid'' ''Expense'' ''USD'' None init
     = (False, init)"
    using c [of "-100" "''Invalid''" "''Expense''" None] by simp
  have b: "add_transaction ''2024-01-15T10:00:00'' 100 ''  '' ''Expense'' ''USD'' None init
     = (False, init)"
    using c [of 100 "''  ''" "''Expense''" None] sp by simp
  have b': "add_transaction ''2024-01-15T10:00:00'' 100 [CHR 0xA0, CHR 0x85] ''Expense'' ''USD'' None init
     = (False, init)"
    using c [of 100 "[CHR 0xA0, CHR 0x85]" "''Expense''" None] nb by simp
  have d: "add_transaction ''2024-01-15T10:00:00'' 100 ''Test'' ''Invalid'' ''USD'' None init
     = (False, init)"
    using c [of 100 "''Test''" "''Invalid''" None] by simp
  have e: "fst (add_transaction ''2024-01-15T10:00:00'' 5000 ''Salary'' ''Income'' ''USD''
        (Some ''2024-01-15'') init)
   \<and> get_transaction_count (snd (add_transaction ''2024-01-15T10:00:00'' 5000 ''Salary''
        ''Income'' ''USD'' (Some ''2024-01-15'') init)) = 1"
    using c [of 5000 "''Salary''" "''Income''" "Some ''2024-01-15''"] ns c0
    by (simp add: get_transaction_count_def)
  from a b b' d e show ?thesis by simp
qed

subsection \<open>Currency conversion\<close>

lemma map_of_exchange_rates_pos: "map_of exchange_rates cur = Some rate \<Longrightarrow> 0 < rate"
  by (auto simp: exchange_rates_def split: if_splits)

text \<open>
  C6: for every amount and currency code, \<^verbatim>\<open>convert_to_usd\<close> is the magnitude of the
  amount divided by the rate of the currency when the currency is in the rate table (so a
  non-negative amount is divided as it is, and a negative one is treated as positive), and is
  the amount unchanged when the currency is unknown. For 100 EUR at rate 0.91 it is
  100 / 0.91; for the code UNKNOWN it is the amount.
\<close>

theorem convert_to_usd_contract:
  "(map_of exchange_rates cur = Some rate \<longrightarrow>
       convert_to_usd amnt cur = \<bar>amnt\<bar> / rate
       \<and> (0 \<le> amnt \<longrightarrow> convert_to_usd amnt cur = amnt / rate)
       \<and> convert_to_usd (- amnt) cur = convert_to_usd amnt cur)
   \<and> (map_of exchange_rates cur = None \<longrightarrow> convert_to_usd amnt cur = amnt)
   \<and> convert_to_usd 100 ''EUR'' = 100 / (91 / 100)
   \<and> convert_to_usd amnt ''UNKNOWN'' = amnt"
  by (auto simp: convert_to_usd_def exchange_rates_def)

theorem convert_to_usd_contract_witness:
  "map_of exchange_rates ''GBP'' = Some (79 / 100)
   \<and> convert_to_usd (-200) ''GBP'' = \<bar>-200\<bar> / (79 / 100)
   \<and> convert_to_usd 200 ''GBP'' = 200 / (79 / 100)
   \<and> map_of exchange_rates ''XYZ'' = None
   \<and> convert_to_usd (-7) ''XYZ'' = -7"
proof -
  have r: "map_of exchange_rates ''GBP'' = Some (79 / 100)"
    by (simp add: exchange_rates_def)
  have u: "map_of exchange_rates ''XYZ'' = None"
    by (simp add: exchange_rates_def)
  have p: "(0::real) \<le> 200"
    by simp
  from convert_to_usd_contract [of "''GBP''" "79 / 100" "-200"] r
  have a: "convert_to_usd (-200) ''GBP'' = \<bar>-200\<bar> / (79 / 100)" by blast
  from convert_to_usd_contract [of "''GBP''" "79 / 100" 200] r p
  have b: "convert_to_usd 200 ''GBP'' = 200 / (79 / 100)" by blast
  from convert_to_usd_contract [of "''XYZ''" _ "-7"] u
  have c: "convert_to_usd (-7) ''XYZ'' = -7" by blast
  from r u a b c show ?thesis by blast
qed

subsection \<open>Summary\<close>

lemma summary_loop_sums:
  "summary_loop ts i e =
     (i + sum_list (map (\<lambda>t. convert_to_usd (amount t) (currency t))
             (filter (\<lambda>t. ttype t = ''Income'') ts)),
      e + sum_list (map (\<lambda>t. convert_to_usd (amount t) (currency t))
             (filter (\<lambda>t. ttype t = ''Expense'') ts)))"
  by (induction ts arbitrary: i e) (auto simp: Let_def)

text \<open>
  C5: \<^verbatim>\<open>get_summary\<close> converts the amount of every transaction to USD, adds up the Income
  transactions and the Expense transactions separately, and returns the two totals together
  with their difference as the net balance. For a ledger with one Income of 5000 (Salary,
  USD) and one Expense of 1200 (Rent, USD) the result is 5000, 1200 and 3800.
\<close>

theorem get_summary_contract:
  "total_income (get_summary s) =
     sum_list (map (\<lambda>t. convert_to_usd (amount t) (currency t))
       (filter (\<lambda>t. ttype t = ''Income'') (transactions s)))
   \<and> total_expenses (get_summary s) =
     sum_list (map (\<lambda>t. convert_to_usd (amount t) (currency t))
       (filter (\<lambda>t. ttype t = ''Expense'') (transactions s)))
   \<and> net_balance (get_summary s) = total_income (get_summary s) - total_expenses (get_summary s)
   \<and> get_summary (snd (add_transaction now_iso 1200 ''Rent'' ''Expense'' ''USD'' (Some ''2024-01-16'')
        (snd (add_transaction now_iso 5000 ''Salary'' ''Income'' ''USD'' (Some ''2024-01-15'') init))))
     = \<lparr> total_income = 5000, total_expenses = 1200, net_balance = 3800 \<rparr>"
proof -
  have fold: "get_summary s =
      \<lparr> total_income = sum_list (map (\<lambda>t. convert_to_usd (amount t) (currency t))
           (filter (\<lambda>t. ttype t = ''Income'') (transactions s))),
        total_expenses = sum_list (map (\<lambda>t. convert_to_usd (amount t) (currency t))
           (filter (\<lambda>t. ttype t = ''Expense'') (transactions s))),
        net_balance = sum_list (map (\<lambda>t. convert_to_usd (amount t) (currency t))
           (filter (\<lambda>t. ttype t = ''Income'') (transactions s)))
          - sum_list (map (\<lambda>t. convert_to_usd (amount t) (currency t))
           (filter (\<lambda>t. ttype t = ''Expense'') (transactions s))) \<rparr>" for s
    by (simp add: get_summary_def summary_loop_sums)
  have s1: "strip ''Salary'' = ''Salary''" and s2: "strip ''Rent'' = ''Rent''"
    by (simp_all add: strip_def py_isspace_def)
  have usd: "convert_to_usd a ''USD'' = \<bar>a\<bar>" for a
    by (simp add: convert_to_usd_def exchange_rates_def)
  have ex: "get_summary (snd (add_transaction now_iso 1200 ''Rent'' ''Expense'' ''USD'' (Some ''2024-01-16'')
        (snd (add_transaction now_iso 5000 ''Salary'' ''Income'' ''USD'' (Some ''2024-01-15'') init))))
     = \<lparr> total_income = 5000, total_expenses = 1200, net_balance = 3800 \<rparr>"
    by (simp add: fold add_transaction_def s1 s2 usd init_def Let_def)
  show ?thesis
    using ex by (simp add: fold)
qed

theorem get_summary_contract_witness:
  "get_summary (init\<lparr>transactions :=
      [\<lparr> amount = 91, category = ''Gift'', ttype = ''Income'', currency = ''EUR'',
         date = ''2024-01-15'', tid = 1 \<rparr>,
       \<lparr> amount = 30, category = ''Food'', ttype = ''Expense'', currency = ''USD'',
         date = ''2024-01-16'', tid = 2 \<rparr>]\<rparr>)
   = \<lparr> total_income = 100, total_expenses = 30, net_balance = 70 \<rparr>"
proof -
  let ?s = "init\<lparr>transactions :=
      [\<lparr> amount = 91, category = ''Gift'', ttype = ''Income'', currency = ''EUR'',
         date = ''2024-01-15'', tid = 1 \<rparr>,
       \<lparr> amount = 30, category = ''Food'', ttype = ''Expense'', currency = ''USD'',
         date = ''2024-01-16'', tid = 2 \<rparr>]\<rparr>"
  have e: "convert_to_usd 91 ''EUR'' = 100" "convert_to_usd 30 ''USD'' = 30"
    by (simp_all add: convert_to_usd_def exchange_rates_def)
  from get_summary_contract [of ?s]
  have "total_income (get_summary ?s) = 100" "total_expenses (get_summary ?s) = 30"
    "net_balance (get_summary ?s) = 70"
    by (simp_all add: e)
  then show ?thesis
    by (cases "get_summary ?s") simp
qed

subsection \<open>Removing a category\<close>

lemma is_category_in_use_iff:
  "is_category_in_use name s \<longleftrightarrow> (\<exists>t \<in> set (transactions s). category t = name)"
  by (simp add: is_category_in_use_def list_ex_iff)

lemma init_categories_distinct:
  "distinct (income_categories init) \<and> distinct (expense_categories init)"
  by (simp add: init_def)

lemma add_category_distinct:
  "distinct (income_categories s) \<Longrightarrow> distinct (expense_categories s) \<Longrightarrow>
   distinct (income_categories (snd (add_category name k s)))
   \<and> distinct (expense_categories (snd (add_category name k s)))"
  by (auto simp: add_category_def Let_def)

lemma remove_category_distinct:
  "distinct (income_categories s) \<Longrightarrow> distinct (expense_categories s) \<Longrightarrow>
   distinct (income_categories (snd (remove_category name k s)))
   \<and> distinct (expense_categories (snd (remove_category name k s)))"
  by (auto simp: remove_category_def)

lemma remove1_single_occurrence: "count_list xs x = Suc 0 \<Longrightarrow> x \<notin> set (remove1 x xs)"
  by (induction xs) (auto simp: count_list_0_iff split: if_splits)

text \<open>
  C8, as the code has it: \<^verbatim>\<open>remove_category\<close> returns False and leaves both category
  lists as they were when some transaction has exactly this category (compared as strings,
  case-sensitive) or the name is not in the list of the given type. Otherwise it returns
  True and removes the first occurrence of the name from the list of that type only, and
  the categories listed for that type afterwards do not contain the name when it was listed
  once. That is so in every list without duplicates: the default lists, and whatever
  \<^verbatim>\<open>add_category\<close> and \<^verbatim>\<open>remove_category\<close> make of a list without duplicates
  (\<open>init_categories_distinct\<close>, \<open>add_category_distinct\<close>, \<open>remove_category_distinct\<close>).
\<close>

theorem remove_category_contract:
  "((\<exists>t \<in> set (transactions s). category t = name)
      \<or> (k = ''Income'' \<and> name \<notin> set (income_categories s))
      \<or> (k = ''Expense'' \<and> name \<notin> set (expense_categories s))
      \<or> (k \<noteq> ''Income'' \<and> k \<noteq> ''Expense'')
     \<longrightarrow> remove_category name k s = (False, s))
   \<and> (\<not> (\<exists>t \<in> set (transactions s). category t = name)
        \<and> k = ''Income'' \<and> name \<in> set (income_categories s)
     \<longrightarrow> remove_category name k s
           = (True, s\<lparr>income_categories := remove1 name (income_categories s)\<rparr>)
         \<and> (count_list (income_categories s) name = 1
              \<longrightarrow> name \<notin> set (get_categories (Some k) (snd (remove_category name k s)))))
   \<and> (\<not> (\<exists>t \<in> set (transactions s). category t = name)
        \<and> k = ''Expense'' \<and> name \<in> set (expense_categories s)
     \<longrightarrow> remove_category name k s
           = (True, s\<lparr>expense_categories := remove1 name (expense_categories s)\<rparr>)
         \<and> (count_list (expense_categories s) name = 1
              \<longrightarrow> name \<notin> set (get_categories (Some k) (snd (remove_category name k s)))))"
  by (auto simp: remove_category_def is_category_in_use_iff get_categories_def
      dest: remove1_single_occurrence)

theorem remove_category_contract_witness:
  "remove_category ''Food'' ''Expense'' (snd (add_transaction ''n'' 100 ''Food'' ''Expense'' ''USD'' (Some ''2024-01-15'') init))
   = (False, snd (add_transaction ''n'' 100 ''Food'' ''Expense'' ''USD'' (Some ''2024-01-15'') init))
  \<and> remove_category ''Nope'' ''Expense'' init = (False, init)
  \<and> remove_category ''Bills'' ''Expense'' init
      = (True, init\<lparr>expense_categories := remove1 ''Bills'' (expense_categories init)\<rparr>)
  \<and> ''Bills'' \<notin> set (get_categories (Some ''Expense'') (snd (remove_category ''Bills'' ''Expense'' init)))
  \<and> ''Bills'' \<in> set (get_categories (Some ''Expense'') init)"
proof -
  let ?s = "snd (add_transaction ''n'' 100 ''Food'' ''Expense'' ''USD'' (Some ''2024-01-15'') init)"
  have f: "strip ''Food'' = ''Food''" by (simp add: strip_def py_isspace_def)
  have tx: "\<exists>t \<in> set (transactions ?s). category t = ''Food''"
    by (simp add: add_transaction_def f init_def)
  have a: "remove_category ''Food'' ''Expense'' ?s = (False, ?s)"
    using remove_category_contract [of ?s "''Food''" "''Expense''"] tx by blast
  have nope: "''Nope'' \<notin> set (expense_categories init)"
    by (simp add: init_def)
  have b: "remove_category ''Nope'' ''Expense'' init = (False, init)"
    using remove_category_contract [of init "''Nope''" "''Expense''"] nope by blast
  have unused: "\<not> (\<exists>t \<in> set (transactions init). category t = ''Bills'')"
    by (simp add: init_def)
  have bills: "''Bills'' \<in> set (expense_categories init)"
    by (simp add: init_def)
  have dist: "count_list (expense_categories init) ''Bills'' = 1"
    by (simp add: init_def)
  have c: "remove_category ''Bills'' ''Expense'' init
      = (True, init\<lparr>expense_categories := remove1 ''Bills'' (expense_categories init)\<rparr>)
  \<and> ''Bills'' \<notin> set (get_categories (Some ''Expense'') (snd (remove_category ''Bills'' ''Expense'' init)))"
    using remove_category_contract [of init "''Bills''" "''Expense''"] unused bills dist by blast
  have d: "''Bills'' \<in> set (get_categories (Some ''Expense'') init)"
    by (simp add: get_categories_def init_def)
  from a b c d show ?thesis by blast
qed

text \<open>
  The claim as the specification words it, that the name is never listed after a removal
  that returns True, fails for a list that holds the name twice, as \<^verbatim>\<open>load_categories\<close>
  installs it from a \<^verbatim>\<open>categories.json\<close> with a repeated name.
\<close>

theorem remove_category_counterexample:
  "transactions
     (snd (load_categories (Content \<lparr> doc_income_categories = None,
        doc_expense_categories = Some [''Food'', ''Food''] \<rparr>) init)) = []
   \<and> ''Food'' \<in> set (get_categories (Some ''Expense'')
     (snd (load_categories (Content \<lparr> doc_income_categories = None,
        doc_expense_categories = Some [''Food'', ''Food''] \<rparr>) init)))
   \<and> fst (remove_category ''Food'' ''Expense''
     (snd (load_categories (Content \<lparr> doc_income_categories = None,
        doc_expense_categories = Some [''Food'', ''Food''] \<rparr>) init)))
   \<and> ''Food'' \<in> set (get_categories (Some ''Expense'') (snd (remove_category ''Food'' ''Expense''
     (snd (load_categories (Content \<lparr> doc_income_categories = None,
        doc_expense_categories = Some [''Food'', ''Food''] \<rparr>) init)))))"
  by (simp add: load_categories_def remove_category_def is_category_in_use_def
      get_categories_def init_def)

subsection \<open>The two date windows\<close>




subsection \<open>Budget thresholds\<close>









lemma strip_Food: "strip ''Food'' = ''Food''"
  by (simp add: strip_def py_isspace_def)

lemma parse_0610: "fromisoformat_naive (replace_Z ''2024-06-10'') = Some (Naive \<lparr> year = 2024, month = 6, day = 10, hour = 0, minute = 0, second = 0, microsecond = 0 \<rparr>)"
  by (simp add: replace_Z_def fromisoformat_naive_def iso_date_def number_def digit_def days_in_month_def is_leap_def)

lemma month_start_example_now: "month_start example_now = \<lparr> year = 2024, month = 6, day = 1, hour = 0, minute = 0, second = 0, microsecond = 0 \<rparr>"
  by (simp add: month_start_def example_now_def)

lemma days_before_june: "days_before_month 2024 6 = 152"
  by (simp add: days_before_month_def upt_rec days_in_month_def is_leap_def)

lemma weekday_example_now: "weekday example_now = 5"
  by (simp add: weekday_def toordinal_def days_before_year_def days_before_june example_now_def)

lemma minus_days_5: "minus_days d 5 = prev_day (prev_day (prev_day (prev_day (prev_day d))))"
  by (simp add: minus_days_def eval_nat_numeral)

lemma week_start_example_now: "week_start example_now = \<lparr> year = 2024, month = 6, day = 10, hour = 0, minute = 0, second = 0, microsecond = 0 \<rparr>"
  by (simp add: week_start_def weekday_example_now minus_days_5) (simp add: prev_day_def example_now_def)

lemma usd: "convert_to_usd a ''USD'' = \<bar>a\<bar>"
  by (simp add: convert_to_usd_def exchange_rates_def)

lemma dt_le_eval:
  "dt_le \<lparr>year = y1, month = m1, day = d1, hour = h1, minute = mi1, second = s1, microsecond = u1\<rparr>
         \<lparr>year = y2, month = m2, day = d2, hour = h2, minute = mi2, second = s2, microsecond = u2\<rparr>
   = (y1 < y2 \<or> y1 = y2 \<and> (m1 < m2 \<or> m1 = m2 \<and> (d1 < d2 \<or> d1 = d2 \<and> (h1 < h2 \<or> h1 = h2 \<and>
        (mi1 < mi2 \<or> mi1 = mi2 \<and> (s1 < s2 \<or> s1 = s2 \<and> u1 \<le> u2))))))"
  by (auto simp: dt_le_def timetuple_def)



lemma strip_Bills: "strip ''Bills'' = ''Bills''"
  by (simp add: strip_def py_isspace_def)





lemma example_week_fields:
  "transactions example_week =
     [\<lparr>amount = 100, category = ''Food'', ttype = ''Expense'', currency = ''USD'', date = ''2024-06-10'', tid = 1\<rparr>,
      \<lparr>amount = 100, category = ''Food'', ttype = ''Expense'', currency = ''USD'', date = ''2024-06-12'', tid = 2\<rparr>,
      \<lparr>amount = 100, category = ''Bills'', ttype = ''Expense'', currency = ''USD'', date = ''2024-06-14'', tid = 3\<rparr>,
      \<lparr>amount = 40, category = ''Food'', ttype = ''Expense'', currency = ''USD'', date = ''2024-06-07'', tid = 4\<rparr>]"
  "budget_limits example_week = []"
  "monthly_budget_limit example_week = None"
  "weekly_budget_limit example_week = Some 250"
  by (simp_all add: example_week_def add_transaction_def set_weekly_budget_def init_def strip_Food strip_Bills)










subsection \<open>Division by a category limit\<close>

lemma check_categories_zero_limit:
  "map_of ce cat = Some v \<Longrightarrow> 0 < v \<Longrightarrow>
   check_categories p ((cat, 0) # rest) ce acc = Inl ZeroDivisionError"
  by simp

lemma check_categories_nothing_spent:
  "map_of ce cat = None \<or> map_of ce cat = Some 0 \<Longrightarrow>
   check_categories p ((cat, limit) # rest) ce acc = check_categories p rest ce acc"
  by auto

lemma zero_limit_zero_spent_no_alert:
  "check_monthly p (Some 0) 0 = [] \<and> check_weekly p (Some 0) 0 = []
   \<and> check_categories p [(cat, 0)] [(cat, 0)] [] = Inr []"
  by (simp add: check_monthly_def check_weekly_def)

text \<open>
  C4: the claim is that \<^verbatim>\<open>get_budget_status\<close> divides spent by a limit only when the
  limit is greater than 0, for the category limits too, so that no division by zero can
  occur. The monthly and weekly blocks are skipped for a limit of 0, and a limit of 0 with
  nothing spent raises no alert in any scope (\<open>zero_limit_zero_spent_no_alert\<close>). The
  category loop guards the division by \<^verbatim>\<open>spent > 0\<close> only: with a category limit of 0
  and a positive amount spent in the category, the call ends in ZeroDivisionError.
\<close>

theorem category_zero_limit_raises:
  "get_budget_status percent fromisoformat_naive example_now
     (snd (add_transaction [] 50 ''Food'' ''Expense'' ''USD'' (Some ''2024-06-10'')
        (set_category_budget ''Food'' 0 init)))
   = Inl ZeroDivisionError"
proof -
  let ?s = "snd (add_transaction [] 50 ''Food'' ''Expense'' ''USD'' (Some ''2024-06-10'')
        (set_category_budget ''Food'' 0 init))"
  have f: "transactions ?s = [\<lparr>amount = 50, category = ''Food'', ttype = ''Expense'',
        currency = ''USD'', date = ''2024-06-10'', tid = 1\<rparr>]"
      "budget_limits ?s = [(''Food'', 0)]"
      "monthly_budget_limit ?s = None" "weekly_budget_limit ?s = None"
    by (simp_all add: add_transaction_def set_category_budget_def init_def strip_Food)
  have m: "get_expenses_in_period fromisoformat_naive (month_start example_now) example_now ?s = Inr 50"
    by (simp add: get_expenses_in_period_def f parse_0610 month_start_def usd dt_le_eval example_now_def)
  have w: "get_expenses_in_period fromisoformat_naive (week_start example_now) example_now ?s = Inr 50"
    by (simp add: get_expenses_in_period_def f parse_0610
        week_start_example_now [unfolded example_now_def] usd dt_le_eval example_now_def)
  have c: "get_category_expenses_current_month fromisoformat_naive example_now ?s = Inr [(''Food'', 50)]"
    by (simp add: get_category_expenses_current_month_def f parse_0610 month_start_def usd
        dt_le_eval example_now_def)
  show ?thesis
    by (simp add: get_budget_status_def m w c f check_monthly_def check_weekly_def)
qed

subsection \<open>The month window\<close>

lemma parse_0720: "fromisoformat_naive (replace_Z ''2024-07-20'') = Some (Naive \<lparr> year = 2024, month = 7, day = 20, hour = 0, minute = 0, second = 0, microsecond = 0 \<rparr>)"
  by (simp add: replace_Z_def fromisoformat_naive_def iso_date_def number_def digit_def days_in_month_def is_leap_def)

lemma parse_2023: "fromisoformat_naive (replace_Z ''2023-06-10'') = Some (Naive \<lparr> year = 2023, month = 6, day = 10, hour = 0, minute = 0, second = 0, microsecond = 0 \<rparr>)"
  by (simp add: replace_Z_def fromisoformat_naive_def iso_date_def number_def digit_def days_in_month_def is_leap_def)

lemma other_year_same_month_excluded:
  "get_budget_status percent fromisoformat_naive example_now
     (snd (add_transaction [] 100 ''Food'' ''Expense'' ''USD'' (Some ''2023-06-10'') init))
   = Inr \<lparr> monthly_spent = 0, monthly_limit = None, weekly_spent = 0, weekly_limit = None,
           category_expenses = [], category_limits = [], alerts = [] \<rparr>"
proof -
  let ?s = "snd (add_transaction [] 100 ''Food'' ''Expense'' ''USD'' (Some ''2023-06-10'') init)"
  have f: "transactions ?s = [\<lparr>amount = 100, category = ''Food'', ttype = ''Expense'',
        currency = ''USD'', date = ''2023-06-10'', tid = 1\<rparr>]"
      "budget_limits ?s = []"
      "monthly_budget_limit ?s = None" "weekly_budget_limit ?s = None"
    by (simp_all add: add_transaction_def init_def strip_Food)
  have m: "get_expenses_in_period fromisoformat_naive (month_start example_now) example_now ?s = Inr 0"
    by (simp add: get_expenses_in_period_def f parse_2023 month_start_def usd dt_le_eval example_now_def)
  have w: "get_expenses_in_period fromisoformat_naive (week_start example_now) example_now ?s = Inr 0"
    by (simp add: get_expenses_in_period_def f parse_2023
        week_start_example_now [unfolded example_now_def] usd dt_le_eval example_now_def)
  have c: "get_category_expenses_current_month fromisoformat_naive example_now ?s = Inr []"
    by (simp add: get_category_expenses_current_month_def f parse_2023 month_start_def usd
        dt_le_eval example_now_def)
  show ?thesis
    by (simp add: get_budget_status_def m w c f check_monthly_def check_weekly_def)
qed

text \<open>
  C9: the claim is that the monthly total and the totals by category both count exactly
  the Expense transactions dated from the first instant of the month of \<open>now\<close> up to
  \<open>now\<close>. The monthly total does (\<open>expenses_in_period_loop_window\<close>), and a date of the
  same month in another year is left out of both (\<open>other_year_same_month_excluded\<close>). The
  totals by category have no upper bound (\<open>category_expenses_loop_window\<close>): an Expense
  dated after \<open>now\<close> is counted for its category and not in the monthly total.
\<close>

theorem category_expenses_count_future_dates:
  "get_budget_status percent fromisoformat_naive example_now
     (snd (add_transaction [] 100 ''Food'' ''Expense'' ''USD'' (Some ''2024-07-20'') init))
   = Inr \<lparr> monthly_spent = 0, monthly_limit = None, weekly_spent = 0, weekly_limit = None,
           category_expenses = [(''Food'', 100)], category_limits = [], alerts = [] \<rparr>"
proof -
  let ?s = "snd (add_transaction [] 100 ''Food'' ''Expense'' ''USD'' (Some ''2024-07-20'') init)"
  have f: "transactions ?s = [\<lparr>amount = 100, category = ''Food'', ttype = ''Expense'',
        currency = ''USD'', date = ''2024-07-20'', tid = 1\<rparr>]"
      "budget_limits ?s = []"
      "monthly_budget_limit ?s = None" "weekly_budget_limit ?s = None"
    by (simp_all add: add_transaction_def init_def strip_Food)
  have m: "get_expenses_in_period fromisoformat_naive (month_start example_now) example_now ?s = Inr 0"
    by (simp add: get_expenses_in_period_def f parse_0720 month_start_def usd dt_le_eval example_now_def)
  have w: "get_expenses_in_period fromisoformat_naive (week_start example_now) example_now ?s = Inr 0"
    by (simp add: get_expenses_in_period_def f parse_0720
        week_start_example_now [unfolded example_now_def] usd dt_le_eval example_now_def)
  have c: "get_category_expenses_current_month fromisoformat_naive example_now ?s = Inr [(''Food'', 100)]"
    by (simp add: get_category_expenses_current_month_def f parse_0720 month_start_def usd
        dt_le_eval example_now_def)
  show ?thesis
    by (simp add: get_budget_status_def m w c f check_monthly_def check_weekly_def)
qed

subsection \<open>Loading a ledger\<close>

lemma csv_rows_loop_unconvertible:
  "row \<in> set rows \<Longrightarrow> map_of row ''date'' = Some d \<Longrightarrow> map_of row ''amount'' = Some a \<Longrightarrow>
   map_of row ''category'' = Some c \<Longrightarrow> map_of row ''type'' = Some ty \<Longrightarrow> py_float a = None \<Longrightarrow>
   \<exists>e. csv_rows_loop py_float rows loaded = Inl e"
proof (induction rows arbitrary: loaded)
  case Nil
  then show ?case by simp
next
  case (Cons r rows)
  show ?case
  proof (cases "r = row")
    case True
    with Cons.prems show ?thesis by simp
  next
    case False
    with Cons.prems have "row \<in> set rows" by simp
    from Cons.IH [OF this Cons.prems(2-6)] show ?thesis
      by (auto split: option.splits)
  qed
qed

lemma json_items_loop_unconvertible:
  "x \<in> set xs \<Longrightarrow> j_date x = Some d \<Longrightarrow> j_amount x = Some a \<Longrightarrow>
   j_category x = Some c \<Longrightarrow> j_type x = Some ty \<Longrightarrow> float_of_jvalue py_float a = Inl e0 \<Longrightarrow>
   \<exists>e. json_items_loop py_float xs loaded = Inl e"
proof (induction xs arbitrary: loaded)
  case Nil
  then show ?case by simp
next
  case (Cons r xs)
  show ?case
  proof (cases "r = x")
    case True
    with Cons.prems show ?thesis by simp
  next
    case False
    with Cons.prems have "x \<in> set xs" by simp
    from Cons.IH [OF this Cons.prems(2-6)] show ?thesis
      by (auto split: option.splits sum.splits)
  qed
qed

text \<open>
  C10: a load from CSV or JSON that fails returns False and leaves the tracker, and with it
  the sequence of transactions, exactly as it was before the call. The failures are a
  missing file, a file that cannot be read or parsed, a JSON document that is neither an
  array nor an object with the member \<^verbatim>\<open>transactions\<close>, and a row with the required
  fields whose amount \<^verbatim>\<open>float\<close> rejects.
\<close>

theorem failed_load_keeps_ledger:
  "(\<not> fst (load_from_csv py_float cf s) \<longrightarrow> snd (load_from_csv py_float cf s) = s)
   \<and> (\<not> fst (load_from_json py_float jf s) \<longrightarrow> snd (load_from_json py_float jf s) = s)
   \<and> load_from_csv py_float Missing s = (False, s)
   \<and> load_from_csv py_float Unreadable s = (False, s)
   \<and> load_from_json py_float Missing s = (False, s)
   \<and> load_from_json py_float Unreadable s = (False, s)
   \<and> load_from_json py_float (Content JOther) s = (False, s)
   \<and> load_from_json py_float (Content (JDict None)) s = (False, s)
   \<and> ((\<exists>row \<in> set (map text_mode_row rows). \<exists>d a c ty.
          map_of row ''date'' = Some d \<and> map_of row ''amount'' = Some a
          \<and> map_of row ''category'' = Some c \<and> map_of row ''type'' = Some ty \<and> py_float a = None)
        \<longrightarrow> load_from_csv py_float (Content rows) s = (False, s))
   \<and> ((\<exists>x \<in> set xs. \<exists>d a c ty e.
          j_date x = Some d \<and> j_amount x = Some a \<and> j_category x = Some c \<and> j_type x = Some ty
          \<and> float_of_jvalue py_float a = Inl e)
        \<longrightarrow> load_from_json py_float (Content (JList xs)) s = (False, s)
          \<and> load_from_json py_float (Content (JDict (Some xs))) s = (False, s))"
proof -
  have a: "\<not> fst (load_from_csv py_float cf s) \<longrightarrow> snd (load_from_csv py_float cf s) = s"
    by (simp add: load_from_csv_def split: path_content.splits sum.splits)
  have b: "\<not> fst (load_from_json py_float jf s) \<longrightarrow> snd (load_from_json py_float jf s) = s"
    by (simp add: load_from_json_def split: path_content.splits sum.splits option.splits json.splits)
  have c: "load_from_csv py_float Missing s = (False, s)" "load_from_csv py_float Unreadable s = (False, s)"
    "load_from_json py_float Missing s = (False, s)" "load_from_json py_float Unreadable s = (False, s)"
    "load_from_json py_float (Content JOther) s = (False, s)"
    "load_from_json py_float (Content (JDict None)) s = (False, s)"
    by (simp_all add: load_from_csv_def load_from_json_def)
  have d: "(\<exists>row \<in> set (map text_mode_row rows). \<exists>d a c ty.
          map_of row ''date'' = Some d \<and> map_of row ''amount'' = Some a
          \<and> map_of row ''category'' = Some c \<and> map_of row ''type'' = Some ty \<and> py_float a = None)
        \<longrightarrow> load_from_csv py_float (Content rows) s = (False, s)"
  proof
    assume "\<exists>row \<in> set (map text_mode_row rows). \<exists>d a c ty.
          map_of row ''date'' = Some d \<and> map_of row ''amount'' = Some a
          \<and> map_of row ''category'' = Some c \<and> map_of row ''type'' = Some ty \<and> py_float a = None"
    then obtain e where "csv_rows_loop py_float (map text_mode_row rows) [] = Inl e"
      using csv_rows_loop_unconvertible [of _ "map text_mode_row rows" _ _ _ _ py_float "[]"] by blast
    then show "load_from_csv py_float (Content rows) s = (False, s)"
      by (simp add: load_from_csv_def)
  qed
  have e: "(\<exists>x \<in> set xs. \<exists>d a c ty e.
          j_date x = Some d \<and> j_amount x = Some a \<and> j_category x = Some c \<and> j_type x = Some ty
          \<and> float_of_jvalue py_float a = Inl e)
        \<longrightarrow> load_from_json py_float (Content (JList xs)) s = (False, s)
          \<and> load_from_json py_float (Content (JDict (Some xs))) s = (False, s)"
  proof
    assume "\<exists>x \<in> set xs. \<exists>d a c ty e.
          j_date x = Some d \<and> j_amount x = Some a \<and> j_category x = Some c \<and> j_type x = Some ty
          \<and> float_of_jvalue py_float a = Inl e"
    then obtain e where "json_items_loop py_float xs [] = Inl e"
      using json_items_loop_unconvertible [of _ xs _ _ _ _ py_float _ "[]"] by blast
    then show "load_from_json py_float (Content (JList xs)) s = (False, s)
          \<and> load_from_json py_float (Content (JDict (Some xs))) s = (False, s)"
      by (simp add: load_from_json_def)
  qed
  from a b c d e show ?thesis by blast
qed


lemma decimal_abc: "decimal ''abc'' = None"
  by (simp add: decimal_def number_def digit_def)

theorem failed_load_keeps_ledger_witness:
  "load_from_csv decimal
      (Content [[(''date'', ''2024-06-10''), (''amount'', ''abc''), (''category'', ''Food''),
                 (''type'', ''Expense'')]]) example_week
     = (False, example_week)
   \<and> load_from_json decimal
      (Content (JList [\<lparr> j_date = Some ''2024-06-10'', j_amount = Some JNull, j_currency = None,
                          j_category = Some ''Food'', j_type = Some ''Expense'' \<rparr>])) example_week
     = (False, example_week)
   \<and> \<not> fst (load_from_csv decimal Missing example_week)
   \<and> snd (load_from_csv decimal Missing example_week) = example_week
   \<and> \<not> fst (load_from_json decimal (Content JOther) example_week)
   \<and> snd (load_from_json decimal (Content JOther) example_week) = example_week
   \<and> length (transactions example_week) = 4"
proof -
  let ?rows = "[[(''date'', ''2024-06-10''), (''amount'', ''abc''), (''category'', ''Food''),
                 (''type'', ''Expense'')]]"
  let ?xs = "[\<lparr> j_date = Some ''2024-06-10'', j_amount = Some JNull, j_currency = None,
                          j_category = Some ''Food'', j_type = Some ''Expense'' \<rparr>]"
  note t = failed_load_keeps_ledger [of decimal _ example_week _ ?rows ?xs]
  have r: "\<exists>row \<in> set (map text_mode_row ?rows). \<exists>d a c ty.
          map_of row ''date'' = Some d \<and> map_of row ''amount'' = Some a
          \<and> map_of row ''category'' = Some c \<and> map_of row ''type'' = Some ty \<and> decimal a = None"
    by (simp add: text_mode_row_def decimal_abc)
  have x: "\<exists>x \<in> set ?xs. \<exists>d a c ty e.
          j_date x = Some d \<and> j_amount x = Some a \<and> j_category x = Some c \<and> j_type x = Some ty
          \<and> float_of_jvalue decimal a = Inl e"
    by (simp add: float_of_jvalue_def)
  from t r have a: "load_from_csv decimal (Content ?rows) example_week = (False, example_week)"
    by blast
  from t x have b: "load_from_json decimal (Content (JList ?xs)) example_week = (False, example_week)"
    by blast
  have m: "\<not> fst (load_from_csv decimal Missing example_week)"
    by (simp add: load_from_csv_def)
  from failed_load_keeps_ledger [of decimal Missing example_week] m
  have c: "snd (load_from_csv decimal Missing example_week) = example_week"
    by blast
  have o: "\<not> fst (load_from_json decimal (Content JOther) example_week)"
    by (simp add: load_from_json_def)
  from failed_load_keeps_ledger [of decimal _ example_week "Content JOther"] o
  have d: "snd (load_from_json decimal (Content JOther) example_week) = example_week"
    by blast
  have l: "length (transactions example_week) = 4"
    by (simp add: example_week_fields)
  from a b m c o d l show ?thesis by blast
qed

subsection \<open>The ledger invariant\<close>

lemma ledger_valid_init: "ledger_valid init"
  by (simp add: ledger_valid_def init_def)

lemma add_transaction_keeps_valid:
  "ledger_valid s \<Longrightarrow> ledger_valid (snd (add_transaction now_iso a c k cur d s))"
  by (auto simp: ledger_valid_def add_transaction_def valid_transaction_def Let_def)

lemma remove_first_id_subset:
  "remove_first_id i ts = Some ts' \<Longrightarrow> set ts' \<subseteq> set ts"
  by (induction ts arbitrary: ts') (auto split: if_splits option.splits)

lemma remove_transaction_keeps_valid:
  "ledger_valid s \<Longrightarrow> ledger_valid (snd (remove_transaction i s))"
  by (auto simp: ledger_valid_def remove_transaction_def list_all_iff
      split: option.splits dest: remove_first_id_subset)

lemma clear_all_transactions_valid: "ledger_valid (clear_all_transactions s)"
  by (simp add: ledger_valid_def clear_all_transactions_def)

lemma run_without_import_valid:
  "ledger_valid s \<Longrightarrow> \<not> list_ex is_import ops \<Longrightarrow> ledger_valid (run now_iso py_float ops s)"
proof (induction ops arbitrary: s)
  case Nil
  then show ?case by simp
next
  case (Cons x ops)
  from Cons.prems have "ledger_valid (apply_op now_iso py_float x s)"
    by (cases x)
      (simp_all add: add_transaction_keeps_valid remove_transaction_keeps_valid
        clear_all_transactions_valid)
  with Cons show ?case by simp
qed

lemma decimal_minus_5: "decimal ''-5'' = Some (- 5)"
  by (simp add: decimal_def number_def digit_def)

text \<open>
  C2: the claim is that in every state reached by adding, removing, clearing and importing
  from CSV or JSON, each stored transaction has a positive amount, the type Income or
  Expense and a non-empty category, inputs that break this being rejected and never stored.
  \<^verbatim>\<open>add_transaction\<close> rejects them, and every run without an import keeps the ledger
  valid (\<open>run_without_import_valid\<close>). The two loaders check only that the four fields are
  present: a row with amount -5, an empty category and the type Refund is stored as it is.
\<close>

theorem import_stores_invalid_transaction:
  "load_from_json py_float
      (Content (JList [\<lparr> j_date = Some ''2024-06-10'', j_amount = Some (JNum (- 5)),
                          j_currency = None, j_category = Some [], j_type = Some ''Refund'' \<rparr>])) init
     = (True, init\<lparr>transactions :=
          [\<lparr> amount = - 5, category = [], ttype = ''Refund'', currency = ''USD'',
             date = ''2024-06-10'', tid = 1 \<rparr>]\<rparr>)
   \<and> \<not> ledger_valid (snd (load_from_json py_float
      (Content (JList [\<lparr> j_date = Some ''2024-06-10'', j_amount = Some (JNum (- 5)),
                          j_currency = None, j_category = Some [], j_type = Some ''Refund'' \<rparr>])) init))
   \<and> load_from_csv decimal
      (Content [[(''date'', ''2024-06-10''), (''amount'', ''-5''), (''currency'', ''USD''),
                 (''category'', []), (''type'', ''Refund''), (''usd_value'', ''5'')]]) init
     = (True, init\<lparr>transactions :=
          [\<lparr> amount = - 5, category = [], ttype = ''Refund'', currency = ''USD'',
             date = ''2024-06-10'', tid = 1 \<rparr>]\<rparr>)
   \<and> \<not> ledger_valid (snd (load_from_csv decimal
      (Content [[(''date'', ''2024-06-10''), (''amount'', ''-5''), (''currency'', ''USD''),
                 (''category'', []), (''type'', ''Refund''), (''usd_value'', ''5'')]]) init))
   \<and> \<not> ledger_valid (run now_iso py_float
      [ImportJson (Content (JList [\<lparr> j_date = Some ''2024-06-10'', j_amount = Some (JNum (- 5)),
                          j_currency = None, j_category = Some [], j_type = Some ''Refund'' \<rparr>]))] init)"
proof -
  have j: "load_from_json py_float
      (Content (JList [\<lparr> j_date = Some ''2024-06-10'', j_amount = Some (JNum (- 5)),
                          j_currency = None, j_category = Some [], j_type = Some ''Refund'' \<rparr>])) init
     = (True, init\<lparr>transactions :=
          [\<lparr> amount = - 5, category = [], ttype = ''Refund'', currency = ''USD'',
             date = ''2024-06-10'', tid = 1 \<rparr>]\<rparr>)"
    by (simp add: load_from_json_def float_of_jvalue_def)
  have c: "load_from_csv decimal
      (Content [[(''date'', ''2024-06-10''), (''amount'', ''-5''), (''currency'', ''USD''),
                 (''category'', []), (''type'', ''Refund''), (''usd_value'', ''5'')]]) init
     = (True, init\<lparr>transactions :=
          [\<lparr> amount = - 5, category = [], ttype = ''Refund'', currency = ''USD'',
             date = ''2024-06-10'', tid = 1 \<rparr>]\<rparr>)"
    by (simp add: load_from_csv_def text_mode_row_def decimal_minus_5)
  have n: "\<not> ledger_valid (init\<lparr>transactions :=
          [\<lparr> amount = - 5, category = [], ttype = ''Refund'', currency = ''USD'',
             date = ''2024-06-10'', tid = 1 \<rparr>]\<rparr>)"
    by (simp add: ledger_valid_def valid_transaction_def)
  show ?thesis
    unfolding run.simps apply_op.simps j c using n by simp
qed

subsection \<open>CSV round trip\<close>

lemma universal_newlines_id: "CHR 0x0D \<notin> set cs \<Longrightarrow> universal_newlines cs = cs"
  by (induction cs rule: universal_newlines.induct) auto

lemma transaction_rebuilt:
  "\<lparr> amount = amount t, category = category t, ttype = ttype t, currency = currency t,
     date = date t, tid = n \<rparr> = t\<lparr>tid := n\<rparr>"
  by (cases t) simp

lemma csv_rows_loop_saved:
  assumes "\<forall>t \<in> set ts. no_cr t \<and> py_float (universal_newlines (py_str (amount t))) = Some (amount t)"
  shows "csv_rows_loop py_float (map text_mode_row (save_to_csv py_str (s\<lparr>transactions := ts\<rparr>))) loaded
         = Inr (loaded @ renumber (length loaded) ts)"
  using assms
proof (induction ts arbitrary: loaded)
  case Nil
  then show ?case by (simp add: save_to_csv_def renumber_def)
next
  case (Cons t ts)
  from Cons.prems have t: "no_cr t" "py_float (universal_newlines (py_str (amount t))) = Some (amount t)"
    and rest: "\<forall>t \<in> set ts. no_cr t \<and> py_float (universal_newlines (py_str (amount t))) = Some (amount t)"
    by simp_all
  from t(1) have u: "universal_newlines (date t) = date t" "universal_newlines (currency t) = currency t"
    "universal_newlines (category t) = category t" "universal_newlines (ttype t) = ttype t"
    by (simp_all add: no_cr_def universal_newlines_id)
  have k: "universal_newlines ''date'' = ''date''" "universal_newlines ''amount'' = ''amount''"
    "universal_newlines ''currency'' = ''currency''" "universal_newlines ''category'' = ''category''"
    "universal_newlines ''type'' = ''type''" "universal_newlines ''usd_value'' = ''usd_value''"
    by simp_all
  have tl: "save_to_csv py_str (s\<lparr>transactions := t # ts\<rparr>)
      = hd (save_to_csv py_str (s\<lparr>transactions := [t]\<rparr>)) # save_to_csv py_str (s\<lparr>transactions := ts\<rparr>)"
    by (simp add: save_to_csv_def)
  have "csv_rows_loop py_float (map text_mode_row (save_to_csv py_str (s\<lparr>transactions := t # ts\<rparr>))) loaded
      = csv_rows_loop py_float (map text_mode_row (save_to_csv py_str (s\<lparr>transactions := ts\<rparr>)))
          (loaded @ [t\<lparr>tid := int (length loaded) + 1\<rparr>])"
    unfolding tl by (simp add: save_to_csv_def text_mode_row_def Let_def k u t(2) transaction_rebuilt)
  also have "\<dots> = Inr ((loaded @ [t\<lparr>tid := int (length loaded) + 1\<rparr>]) @ renumber (Suc (length loaded)) ts)"
    using Cons.IH [OF rest, of "loaded @ [t\<lparr>tid := int (length loaded) + 1\<rparr>]"] by simp
  finally show ?case
    by (simp add: renumber_def)
qed

lemma csv_tuple_renumber: "map csv_tuple (renumber n ts) = map csv_tuple ts"
  by (induction ts arbitrary: n) (simp_all add: renumber_def csv_tuple_def)

lemma tid_renumber: "map tid (renumber n ts) = map (\<lambda>i. int i + 1) [n..<n + length ts]"
proof (induction ts arbitrary: n)
  case Nil
  then show ?case by (simp add: renumber_def)
next
  case (Cons t ts)
  have "[n..<n + length (t # ts)] = n # [Suc n..<Suc n + length ts]"
    by (subst upt_rec) simp
  with Cons.IH [of "Suc n"] show ?case
    by (simp add: renumber_def)
qed

lemma csv_round_trip_without_cr:
  assumes "\<forall>t \<in> set (transactions s).
             no_cr t \<and> py_float (universal_newlines (py_str (amount t))) = Some (amount t)"
  shows "load_from_csv py_float (Content (save_to_csv py_str s)) s'
           = (True, s'\<lparr>transactions := renumber 0 (transactions s)\<rparr>)"
    and "map csv_tuple (renumber 0 (transactions s)) = map csv_tuple (transactions s)"
    and "map tid (renumber 0 (transactions s)) = map (\<lambda>i. int i + 1) [0..<length (transactions s)]"
proof -
  have "s\<lparr>transactions := transactions s\<rparr> = s"
    by simp
  with csv_rows_loop_saved [OF assms, of s "[]"]
  have "csv_rows_loop py_float (map text_mode_row (save_to_csv py_str s)) [] = Inr (renumber 0 (transactions s))"
    by simp
  then show "load_from_csv py_float (Content (save_to_csv py_str s)) s'
           = (True, s'\<lparr>transactions := renumber 0 (transactions s)\<rparr>)"
    by (simp add: load_from_csv_def)
  show "map csv_tuple (renumber 0 (transactions s)) = map csv_tuple (transactions s)"
    by (rule csv_tuple_renumber)
  show "map tid (renumber 0 (transactions s)) = map (\<lambda>i. int i + 1) [0..<length (transactions s)]"
    using tid_renumber [of 0 "transactions s"] by simp
qed

text \<open>
  C7: the claim is that for every ledger, saving it to CSV and loading the file into a
  fresh tracker gives the same sequence of (date, amount, currency, category, type), with
  ids 1..n in file order, the load replacing what the tracker held. This holds for a ledger
  without a carriage return in its text fields whose amounts \<^verbatim>\<open>float\<close> reads back from
  \<^verbatim>\<open>str\<close> (\<open>csv_round_trip_without_cr\<close>). A category with a carriage return comes back
  with a line feed in its place, because the file is read in text mode without
  \<^verbatim>\<open>newline=''\<close>: whatever the number functions do, the tuples differ, and either the load
  fails or the category read is \<^verbatim>\<open>a\nb\<close>.
\<close>

theorem csv_round_trip_changes_carriage_return:
  "map csv_tuple (transactions (snd (load_from_csv py_float
       (Content (save_to_csv py_str
          (snd (add_transaction [] 10 [CHR ''a'', CHR 0x0D, CHR ''b''] ''Expense'' ''USD''
                  (Some ''2024-06-10'') init)))) init)))
   \<noteq> map csv_tuple (transactions
          (snd (add_transaction [] 10 [CHR ''a'', CHR 0x0D, CHR ''b''] ''Expense'' ''USD''
                  (Some ''2024-06-10'') init)))
   \<and> (map category (transactions (snd (load_from_csv py_float
       (Content (save_to_csv py_str
          (snd (add_transaction [] 10 [CHR ''a'', CHR 0x0D, CHR ''b''] ''Expense'' ''USD''
                  (Some ''2024-06-10'') init)))) init))) = []
      \<or> map category (transactions (snd (load_from_csv py_float
       (Content (save_to_csv py_str
          (snd (add_transaction [] 10 [CHR ''a'', CHR 0x0D, CHR ''b''] ''Expense'' ''USD''
                  (Some ''2024-06-10'') init)))) init))) = [[CHR ''a'', CHR 0x0A, CHR ''b'']])"
proof -
  let ?s = "snd (add_transaction [] 10 [CHR ''a'', CHR 0x0D, CHR ''b''] ''Expense'' ''USD''
                  (Some ''2024-06-10'') init)"
  have st: "strip [CHR ''a'', CHR 0x0D, CHR ''b''] = [CHR ''a'', CHR 0x0D, CHR ''b'']"
    by (simp add: strip_def py_isspace_def)
  have tx: "transactions ?s = [\<lparr> amount = 10, category = [CHR ''a'', CHR 0x0D, CHR ''b''],
      ttype = ''Expense'', currency = ''USD'', date = ''2024-06-10'', tid = 1 \<rparr>]"
    by (simp add: add_transaction_def st init_def)
  have rows: "map text_mode_row (save_to_csv py_str ?s) =
      [[(''date'', ''2024-06-10''), (''amount'', universal_newlines (py_str 10)),
        (''currency'', ''USD''), (''category'', [CHR ''a'', CHR 0x0A, CHR ''b'']),
        (''type'', ''Expense''),
        (''usd_value'', universal_newlines (py_str (py_round2 (convert_to_usd 10 ''USD''))))]]"
    by (simp add: save_to_csv_def tx text_mode_row_def)
  have ti: "transactions init = []"
    by (simp add: init_def)
  show ?thesis
  proof (cases "py_float (universal_newlines (py_str 10))")
    case None
    then have "load_from_csv py_float (Content (save_to_csv py_str ?s)) init = (False, init)"
      by (simp add: load_from_csv_def rows)
    then show ?thesis
      by (simp add: tx ti)
  next
    case (Some x)
    then have "load_from_csv py_float (Content (save_to_csv py_str ?s)) init
        = (True, init\<lparr>transactions := [\<lparr> amount = x, category = [CHR ''a'', CHR 0x0A, CHR ''b''],
            ttype = ''Expense'', currency = ''USD'', date = ''2024-06-10'', tid = 1 \<rparr>]\<rparr>)"
      by (simp add: load_from_csv_def rows)
    then show ?thesis
      by (simp add: tx csv_tuple_def)
  qed
qed

end
